theory Spec2Isabelle
  imports Main "HOL-Library.Word" "HOL-Library.Sublist"
begin

unbundle bit_operations_syntax

section \<open>Bytes, hashes and versions\<close>

text \<open>
  A Go \<^verbatim>\<open>[]byte\<close> is a list of 8-bit words, a Go \<^verbatim>\<open>string\<close> is a list of
  characters (bytes). \<^verbatim>\<open>types.Hash\<close> is go-ethereum's \<^verbatim>\<open>common.Hash\<close>, an array of 32
  bytes; an \<^verbatim>\<open>ethcommon.Address\<close> is an array of 20 bytes, read here as a 160-bit word.
\<close>

type_synonym byte = "8 word"
type_synonym Hash = "byte list"
type_synonym Address = "160 word"

text \<open>
  \<^verbatim>\<open>semver.Version\<close> (an external library): the release part \<open>major.minor.patch\<close>.
  Pre-release tags and build metadata are outside the model.
\<close>

record Version =
  Major :: nat
  Minor :: nat
  Patch :: nat

text \<open>
  Every error value the modelled functions return. An error built by \<^verbatim>\<open>fmt.Errorf\<close> keeps
  the values it formats; an error that comes back from a library or from a part of the
  repository outside the sources is an \<open>ExternalError\<close>; a Go panic on a nil pointer is
  \<open>NilPointerDereference\<close>.
\<close>

datatype error =
    InvalidByteError char
  | ErrLength
  | errInvalidHashLen nat
  | errOfferVersionMissing
  | errOfferVersionUnsupported Version
  | errOfferIDNotSet
  | errExchangeRateNil
  | errMinGreaterThanMax
  | errOfferHashMismatch
  | errInvalidMessageBytes
  | errInvalidMessageType byte
  | errFailedToDecode string error
  | errUnsupportedAsset Address
  | errSwapValueTooLow int int
  | NotFound
  | errRelayedTransactionTimeout
  | errClaimTransactionFailed
  | errClaimTransactionNoLogs
  | errClaimLogs error
  | errClaimedLogInvalidContractAddr
  | errClaimedLogWrongTopicLength
  | errClaimedLogWrongEvent
  | errClaimedLogWrongSwapID
  | errClaimedLogWrongSecret
  | errInvalidStageForRecovery
  | errUnexpectedMessageType
  | NilPointerDereference
  | ExternalError string

subsection \<open>common/types/hash.go\<close>

definition EmptyHash :: Hash where
  "EmptyHash = replicate 32 0"

definition IsHashZero :: "Hash \<Rightarrow> bool" where
  "IsHashZero h = (h = EmptyHash)"

text \<open>
  Go's \<^verbatim>\<open>encoding/hex\<close>: \<open>fromHexChar\<close> is the lookup in \<^verbatim>\<open>reverseHexTable\<close>;
  \<open>hex_DecodeString\<close> walks the input two characters at a time, stops at the first
  character that is no hex digit, and reports an odd length only when the dangling
  character is a hex digit.
\<close>

definition fromHexChar :: "char \<Rightarrow> byte option" where
  "fromHexChar c =
     (let n = (of_char c :: nat) in
      if 48 \<le> n \<and> n \<le> 57 then Some (of_nat (n - 48))
      else if 97 \<le> n \<and> n \<le> 102 then Some (of_nat (n - 87))
      else if 65 \<le> n \<and> n \<le> 70 then Some (of_nat (n - 55))
      else None)"

fun hex_DecodeString :: "string \<Rightarrow> error + byte list" where
  "hex_DecodeString [] = Inr []"
| "hex_DecodeString [p] =
     (case fromHexChar p of None \<Rightarrow> Inl (InvalidByteError p) | Some a \<Rightarrow> Inl ErrLength)"
| "hex_DecodeString (p # q # rest) =
     (case fromHexChar p of
        None \<Rightarrow> Inl (InvalidByteError p)
      | Some a \<Rightarrow>
          (case fromHexChar q of
             None \<Rightarrow> Inl (InvalidByteError q)
           | Some b \<Rightarrow>
               (case hex_DecodeString rest of
                  Inl e \<Rightarrow> Inl e
                | Inr bs \<Rightarrow> Inr ((push_bit 4 a OR b) # bs))))"

definition TrimPrefix :: "string \<Rightarrow> string \<Rightarrow> string" where
  "TrimPrefix s p = (if prefix p s then drop (length p) s else s)"

text \<open>
  \<^verbatim>\<open>copy(dst[:], src)\<close> into a fresh (all-zero) array of 32 bytes: the first
  \<open>min 32 (length src)\<close> bytes are overwritten, the rest stay zero.
\<close>

definition copy32 :: "byte list \<Rightarrow> byte list" where
  "copy32 src = take 32 src @ replicate (32 - length src) 0"

definition HexToHash :: "string \<Rightarrow> error + Hash" where
  "HexToHash s =
     (if s = [] then Inr EmptyHash
      else
        (case hex_DecodeString (TrimPrefix s ''0x'') of
           Inl err \<Rightarrow> Inl err
         | Inr h \<Rightarrow>
             if length h \<noteq> 32 then Inl (errInvalidHashLen (length h))
             else Inr (copy32 h)))"

text \<open>
  What "valid hex that decodes to \<open>bs\<close>" means, stated without the decoder: the text has
  two hex digits per byte, high nibble first.
\<close>

definition is_hex_of :: "string \<Rightarrow> byte list \<Rightarrow> bool" where
  "is_hex_of t bs \<longleftrightarrow>
     length t = 2 * length bs \<and>
     (\<forall>i < length bs.
        \<exists>a b. fromHexChar (t ! (2 * i)) = Some a \<and> fromHexChar (t ! (2 * i + 1)) = Some b \<and>
              bs ! i = (push_bit 4 a OR b))"

text \<open>
  Decimal digits of a natural number, as \<^verbatim>\<open>%d\<close> prints an unsigned value and as
  \<^verbatim>\<open>big.Int\<close> prints a coefficient.
\<close>

definition digitChar :: "nat \<Rightarrow> char" where
  "digitChar d = ''0123456789'' ! d"

fun digits10 :: "nat \<Rightarrow> string" where
  "digits10 n =
     (if n < 10 then [digitChar n]
      else digits10 (n div 10) @ [digitChar (n mod 10)])"

declare digits10.simps [simp del]

section \<open>common/types: offers\<close>

text \<open>
  \<^verbatim>\<open>apd.Decimal\<close> (an external library): sign, coefficient and exponent of a finite
  decimal, whose value is the signed coefficient times ten to the exponent. NaN and the
  infinities are outside the model. A \<^verbatim>\<open>*apd.Decimal\<close> is a \<open>Decimal option\<close>, \<open>None\<close>
  for the nil pointer.
\<close>

record Decimal =
  Negative :: bool
  Coeff :: nat
  Exponent :: int

text \<open>
  \<^verbatim>\<open>d.Text('f')\<close>: the digits of the coefficient with the decimal point placed by the
  exponent, no exponent notation; trailing zeros of the coefficient are printed.
\<close>

definition Text_f :: "Decimal \<Rightarrow> string" where
  "Text_f d =
     (if Negative d then [CHR ''-''] else []) @
     (let digits = digits10 (Coeff d) in
      if Exponent d < 0 then
        (let left = - Exponent d - int (length digits) in
         if left \<ge> 0 then ''0.'' @ replicate (nat left) CHR ''0'' @ digits
         else take (nat (- left)) digits @ ''.'' @ drop (nat (- left)) digits)
      else digits @ replicate (nat (Exponent d)) CHR ''0'')"

text \<open>
  \<^verbatim>\<open>d.Reduce(d)\<close>: trailing zeros of the coefficient move into the exponent; zero becomes
  the decimal with coefficient 0 and exponent 0.
\<close>

fun stripZeros :: "nat \<Rightarrow> int \<Rightarrow> nat \<times> int" where
  "stripZeros c e = (if c \<noteq> 0 \<and> c mod 10 = 0 then stripZeros (c div 10) (e + 1) else (c, e))"

declare stripZeros.simps [simp del]

definition Reduce :: "Decimal \<Rightarrow> Decimal" where
  "Reduce d =
     (if Coeff d = 0 then \<lparr>Negative = False, Coeff = 0, Exponent = 0\<rparr>
      else (case stripZeros (Coeff d) (Exponent d) of
              (c, e) \<Rightarrow> \<lparr>Negative = Negative d, Coeff = c, Exponent = e\<rparr>))"

text \<open>\<^verbatim>\<open>d.Cmp(x)\<close>: \<open>-1\<close>, \<open>0\<close> or \<open>1\<close> as the value of \<open>d\<close> is below, equal to or above that of \<open>x\<close>.\<close>

definition scaled :: "int \<Rightarrow> Decimal \<Rightarrow> int" where
  "scaled m d = (if Negative d then - 1 else 1) * int (Coeff d) * 10 ^ nat (Exponent d - m)"

definition Cmp :: "Decimal \<Rightarrow> Decimal \<Rightarrow> int" where
  "Cmp d x =
     (let m = min (Exponent d) (Exponent x) in
      if scaled m d < scaled m x then - 1 else if scaled m d = scaled m x then 0 else 1)"

text \<open>\<^verbatim>\<open>v.String()\<close> and \<^verbatim>\<open>v.GreaterThan(o)\<close> of \<^verbatim>\<open>semver.Version\<close>.\<close>

definition Version_String :: "Version \<Rightarrow> string" where
  "Version_String v = digits10 (Major v) @ ''.'' @ digits10 (Minor v) @ ''.'' @ digits10 (Patch v)"

definition GreaterThan :: "Version \<Rightarrow> Version \<Rightarrow> bool" where
  "GreaterThan v w \<longleftrightarrow>
     Major v > Major w \<or>
     (Major v = Major w \<and> (Minor v > Minor w \<or> (Minor v = Minor w \<and> Patch v > Patch w)))"

definition CurOfferVersion :: Version where
  "CurOfferVersion = \<lparr>Major = 1, Minor = 0, Patch = 0\<rparr>"

text \<open>
  The struct \<open>Offer\<close>. \<^verbatim>\<open>coins.ProvidesCoin\<close> is a string, \<^verbatim>\<open>coins.ExchangeRate\<close> is an
  \<^verbatim>\<open>apd.Decimal\<close> under another name, \<^verbatim>\<open>types.EthAsset\<close> is an address.
\<close>

record Offer =
  Version :: Version
  ID :: Hash
  Provides :: string
  MinAmount :: "Decimal option"
  MaxAmount :: "Decimal option"
  ExchangeRate :: "Decimal option"
  EthAsset :: Address
  Nonce :: "64 word"

text \<open>
  What the offer code calls and the sources do not hold, as parameters:
  \<^item> \<open>sha3_Sum256\<close>: \<^verbatim>\<open>sha3.Sum256\<close> of golang.org/x/crypto;
  \<^item> \<open>EthAsset_String\<close>: the method \<^verbatim>\<open>String()\<close> of \<^verbatim>\<open>types.EthAsset\<close>;
  \<^item> \<open>ValidatePositive\<close>: \<^verbatim>\<open>coins.ValidatePositive(name, coins.NumMoneroDecimals, value)\<close>
    as a function of the field name and the value;
  \<^item> \<open>Unmarshal_version\<close>: \<^verbatim>\<open>json.Unmarshal\<close> into the struct that has the \<^verbatim>\<open>version\<close> field
    only (\<open>Inr None\<close> when the field is absent and the pointer stays nil);
  \<^item> \<open>MarshalStruct_Offer\<close>, \<open>UnmarshalStruct_Offer\<close>: \<^verbatim>\<open>vjson.MarshalStruct\<close> and
    \<^verbatim>\<open>vjson.UnmarshalStruct\<close> on the method-free copy \<^verbatim>\<open>_Offer\<close> of the struct.
\<close>

record Extern =
  sha3_Sum256 :: "string \<Rightarrow> Hash"
  EthAsset_String :: "Address \<Rightarrow> string"
  ValidatePositive :: "string \<Rightarrow> Decimal option \<Rightarrow> error option"
  Unmarshal_version :: "string \<Rightarrow> error + Version option"
  MarshalStruct_Offer :: "Offer \<Rightarrow> error + string"
  UnmarshalStruct_Offer :: "string \<Rightarrow> error + Offer"

text \<open>
  Modelled from the spec: the method \<^verbatim>\<open>String()\<close> of \<^verbatim>\<open>coins.ExchangeRate\<close> (package
  \<^verbatim>\<open>coins\<close> is not among the sources); the spec puts the exchange rate into the hashed
  sequence as a decimal like the two amounts, so it prints as \<^verbatim>\<open>Text('f')\<close> does.
\<close>

definition ExchangeRate_String :: "Decimal \<Rightarrow> string" where
  "ExchangeRate_String r = Text_f r"

text \<open>
  The byte slice \<open>b\<close> that \<open>Offer.hash\<close> builds, and the hash itself. The method
  dereferences the three decimals: a nil pointer among them is a panic.
\<close>

definition hashInput :: "Extern \<Rightarrow> Offer \<Rightarrow> error + string" where
  "hashInput X ofr =
     (case (MinAmount ofr, MaxAmount ofr, ExchangeRate ofr) of
        (Some mn, Some mx, Some r) \<Rightarrow>
          Inr (Version_String (Version ofr) @ Provides ofr @ '','' @ Text_f mn @ '','' @
               Text_f mx @ '','' @ ExchangeRate_String r @ '','' @
               EthAsset_String X (EthAsset ofr) @ '','' @ digits10 (unat (Nonce ofr)))
      | _ \<Rightarrow> Inl NilPointerDereference)"

definition hash :: "Extern \<Rightarrow> Offer \<Rightarrow> error + Hash" where
  "hash X ofr = (case hashInput X ofr of Inl e \<Rightarrow> Inl e | Inr b \<Rightarrow> Inr (sha3_Sum256 X b))"

definition IsSet :: "Offer \<Rightarrow> bool" where
  "IsSet ofr \<longleftrightarrow>
     \<not> IsHashZero (ID ofr) \<and> Provides ofr \<noteq> [] \<and> MinAmount ofr \<noteq> None \<and>
     MaxAmount ofr \<noteq> None \<and> ExchangeRate ofr \<noteq> None"

definition validate :: "Extern \<Rightarrow> Offer \<Rightarrow> error option" where
  "validate X ofr =
     (if IsHashZero (ID ofr) then Some errOfferIDNotSet
      else
        (case ValidatePositive X ''minAmount'' (MinAmount ofr) of
           Some err \<Rightarrow> Some err
         | None \<Rightarrow>
             (case ValidatePositive X ''maxAmount'' (MaxAmount ofr) of
                Some err \<Rightarrow> Some err
              | None \<Rightarrow>
                  (case (MinAmount ofr, MaxAmount ofr) of
                     (Some mn, Some mx) \<Rightarrow>
                       if Cmp mn mx > 0 then Some errMinGreaterThanMax
                       else if ExchangeRate ofr = None then Some errExchangeRateNil
                       else
                         (case hash X ofr of
                            Inl e \<Rightarrow> Some e
                          | Inr h \<Rightarrow> if ID ofr \<noteq> h then Some errOfferHashMismatch else None)
                   | _ \<Rightarrow> Some NilPointerDereference))))"




definition UnmarshalJSON :: "Extern \<Rightarrow> string \<Rightarrow> error + Offer" where
  "UnmarshalJSON X data =
     (case UnmarshalStruct_Offer X data of
        Inl err \<Rightarrow> Inl err
      | Inr ofr \<Rightarrow> (case validate X ofr of Some err \<Rightarrow> Inl err | None \<Rightarrow> Inr ofr))"

definition UnmarshalOffer :: "Extern \<Rightarrow> string \<Rightarrow> error + Offer" where
  "UnmarshalOffer X jsonData =
     (case Unmarshal_version X jsonData of
        Inl err \<Rightarrow> Inl err
      | Inr None \<Rightarrow> Inl errOfferVersionMissing
      | Inr (Some v) \<Rightarrow>
          if GreaterThan v CurOfferVersion then Inl (errOfferVersionUnsupported v)
          else (case UnmarshalJSON X jsonData of Inl err \<Rightarrow> Inl err | Inr ofr \<Rightarrow> Inr ofr))"


section \<open>net/message/message.go\<close>

text \<open>The identifiers of the p2p message types: the first byte of a message.\<close>

definition Unknown :: byte where "Unknown = 0"
definition QueryResponseType :: byte where "QueryResponseType = 1"
definition RelayClaimRequestType :: byte where "RelayClaimRequestType = 2"
definition RelayClaimResponseType :: byte where "RelayClaimResponseType = 3"
definition SendKeysType :: byte where "SendKeysType = 4"
definition NotifyETHLockedType :: byte where "NotifyETHLockedType = 5"

text \<open>The five Go types that implement \<^verbatim>\<open>common.Message\<close>, and their \<^verbatim>\<open>Type()\<close> methods.\<close>

datatype Message =
  QueryResponse | RelayClaimRequest | RelayClaimResponse | SendKeysMessage | NotifyETHLocked

fun Type :: "Message \<Rightarrow> byte" where
  "Type QueryResponse = QueryResponseType"
| "Type RelayClaimRequest = RelayClaimRequestType"
| "Type RelayClaimResponse = RelayClaimResponseType"
| "Type SendKeysMessage = SendKeysType"
| "Type NotifyETHLocked = NotifyETHLockedType"

definition TypeToString :: "byte \<Rightarrow> string" where
  "TypeToString t =
     (if t = QueryResponseType then ''QueryResponse''
      else if t = SendKeysType then ''SendKeysMessage''
      else if t = NotifyETHLockedType then ''NotifyETHLocked''
      else if t = RelayClaimRequestType then ''RelayClaimRequestType''
      else if t = RelayClaimResponseType then ''RelayClaimResponse''
      else ''Unknown('' @ digits10 (unat t) @ '')'')"

text \<open>
  \<open>DecodeMessage\<close>. \<^verbatim>\<open>vjson.UnmarshalStruct\<close> (package \<^verbatim>\<open>common/vjson\<close>, not among the
  sources) is the parameter \<open>UnmarshalStruct\<close>: given the Go type picked by the switch and
  the JSON bytes, it returns an error or the decoded body. The decoded message is the pair
  of the Go type and that body.
\<close>

definition DecodeMessage ::
  "(Message \<Rightarrow> byte list \<Rightarrow> error + 'body) \<Rightarrow> byte list \<Rightarrow> error + (Message \<times> 'body)" where
  "DecodeMessage UnmarshalStruct b =
     (if length b < 3 then Inl errInvalidMessageBytes
      else
        let msgType = b ! 0; msgJSON = drop 1 b in
        (case (if msgType = QueryResponseType then Some QueryResponse
               else if msgType = RelayClaimRequestType then Some RelayClaimRequest
               else if msgType = RelayClaimResponseType then Some RelayClaimResponse
               else if msgType = SendKeysType then Some SendKeysMessage
               else if msgType = NotifyETHLockedType then Some NotifyETHLocked
               else None) of
           None \<Rightarrow> Inl (errInvalidMessageType msgType)
         | Some msg \<Rightarrow>
             (case UnmarshalStruct msg msgJSON of
                Inl err \<Rightarrow> Inl (errFailedToDecode (TypeToString (Type msg)) err)
              | Inr body \<Rightarrow> Inr (msg, body))))"

text \<open>
  The table of type codes as the spec's wire format gives it:
  1 = QueryResponse, 2 = RelayClaimRequest, 3 = RelayClaimResponse, 4 = SendKeys,
  5 = NotifyETHLocked.
\<close>

definition spec_type_code :: "byte \<Rightarrow> Message option" where
  "spec_type_code c =
     (if c = 1 then Some QueryResponse
      else if c = 2 then Some RelayClaimRequest
      else if c = 3 then Some RelayClaimResponse
      else if c = 4 then Some SendKeysMessage
      else if c = 5 then Some NotifyETHLocked
      else None)"

section \<open>relayer/validate.go\<close>

text \<open>
  Modelled from the spec: the struct \<^verbatim>\<open>contracts.SwapFactorySwap\<close> is declared in the
  contract bindings, which are not among the sources; the spec's ContractSwap lists its
  fields. \<^verbatim>\<open>*big.Int\<close> values are integers.
\<close>

record SwapFactorySwap =
  Owner :: Address
  Claimer :: Address
  PubKeyClaim :: Hash
  PubKeyRefund :: Hash
  Timeout0 :: int
  Timeout1 :: int
  Asset :: Address
  Value :: int
  SwapNonce :: int

text \<open>\<^verbatim>\<open>message.RelayClaimRequest\<close> (net/message/relay_message.go); \<open>Swap\<close> is a pointer.\<close>

record RelayClaimRequestBody =
  SwapFactoryAddress :: Address
  Swap :: "SwapFactorySwap option"
  Secret :: "byte list"
  Signature :: "byte list"

text \<open>
  Modelled from the spec: \<^verbatim>\<open>types.EthAssetETH\<close> (common/types, not among the sources) is
  the asset of native ETH; scenario S1 of the spec writes it \<^verbatim>\<open>asset:0x0\<close>, the zero
  address.
\<close>

definition EthAssetETH :: Address where
  "EthAssetETH = 0"

text \<open>
  \<open>validateClaimValues\<close>. The on-chain bytecode check
  \<^verbatim>\<open>contracts.CheckSwapFactoryContractCode\<close> and the package variable \<^verbatim>\<open>FeeWei\<close> are not
  among the sources and are parameters. \<^verbatim>\<open>FeeWei.Cmp(req.Swap.Value) >= 0\<close> is
  \<open>Value swap \<le> FeeWei\<close>.
\<close>

definition validateClaimValues ::
  "(Address \<Rightarrow> error option) \<Rightarrow> int \<Rightarrow> RelayClaimRequestBody \<Rightarrow> Address \<Rightarrow> error option" where
  "validateClaimValues CheckSwapFactoryContractCode FeeWei req ourSwapFactoryAddr =
     (case (if SwapFactoryAddress req \<noteq> ourSwapFactoryAddr
            then CheckSwapFactoryContractCode (SwapFactoryAddress req) else None) of
        Some err \<Rightarrow> Some err
      | None \<Rightarrow>
          (case Swap req of
             None \<Rightarrow> Some NilPointerDereference
           | Some swap \<Rightarrow>
               if Asset swap \<noteq> EthAssetETH then Some (errUnsupportedAsset (Asset swap))
               else if Value swap \<le> FeeWei then Some (errSwapValueTooLow (Value swap) FeeWei)
               else None))"

section \<open>protocol/xmrmaker: the relayed claim and its receipt\<close>

text \<open>go-ethereum's \<^verbatim>\<open>types.Log\<close> and \<^verbatim>\<open>types.Receipt\<close>, with the fields the code reads.\<close>

record Log =
  LogAddress :: Address
  Topics :: "Hash list"

record Receipt =
  ReceiptStatus :: "64 word"
  Logs :: "Log list"

definition ReceiptStatusSuccessful :: "64 word" where
  "ReceiptStatusSuccessful = 1"

text \<open>
  The environment of the polling loop of \<open>waitForClaimReceipt\<close>, one record per iteration:
  what \<^verbatim>\<open>common.SleepWithContext\<close> returned, what \<^verbatim>\<open>ec.TransactionByHash\<close> answered (an
  error, or the transaction with its \<^verbatim>\<open>isPending\<close> flag), and \<^verbatim>\<open>time.Since(start)\<close> in
  nanoseconds when the loop reads the clock.
\<close>

datatype TxAnswer = TxError error | TxFound bool

record Poll =
  sleepErr :: "error option"
  answer :: TxAnswer
  sinceStart :: int

definition checkInterval :: int where "checkInterval = 1000000000"
definition maxWait :: int where "maxWait = 60 * 1000000000"
definition maxNotFound :: nat where "maxNotFound = 10"

text \<open>
  The \<^verbatim>\<open>for\<close> loop. The result is \<open>None\<close> when the recorded answers run out while the loop
  is still polling, \<open>Some (Some err)\<close> when the loop returns \<open>err\<close>, and \<open>Some None\<close> when
  it leaves through \<^verbatim>\<open>break\<close>.
\<close>

fun waitForInclusion :: "nat \<Rightarrow> Poll list \<Rightarrow> error option option" where
  "waitForInclusion notFoundCount [] = None"
| "waitForInclusion notFoundCount (p # ps) =
     (case sleepErr p of
        Some err \<Rightarrow> Some (Some err)
      | None \<Rightarrow>
          (case answer p of
             TxError err \<Rightarrow>
               if err = NotFound \<and> notFoundCount \<ge> maxNotFound
               then waitForInclusion (notFoundCount + 1) ps
               else Some (Some err)
           | TxFound isPending \<Rightarrow>
               if sinceStart p > maxWait then Some (Some errRelayedTransactionTimeout)
               else if \<not> isPending then Some None
               else waitForInclusion notFoundCount ps))"

text \<open>\<open>claimedTopic\<close> is a package variable computed by code outside the sources: a parameter.\<close>

definition checkClaimedLog :: "Hash \<Rightarrow> Log \<Rightarrow> Address \<Rightarrow> Hash \<Rightarrow> Hash \<Rightarrow> error option" where
  "checkClaimedLog claimedTopic log contractAddr contractSwapID secret =
     (if LogAddress log \<noteq> contractAddr then Some errClaimedLogInvalidContractAddr
      else if length (Topics log) \<noteq> 3 then Some errClaimedLogWrongTopicLength
      else if Topics log ! 0 \<noteq> claimedTopic then Some errClaimedLogWrongEvent
      else if Topics log ! 1 \<noteq> contractSwapID then Some errClaimedLogWrongSwapID
      else if Topics log ! 2 \<noteq> secret then Some errClaimedLogWrongSecret
      else None)"

text \<open>The part of \<open>waitForClaimReceipt\<close> after the loop; \<open>receipt\<close> is what
  \<^verbatim>\<open>ec.TransactionReceipt\<close> answered.\<close>

definition checkReceipt ::
  "Hash \<Rightarrow> error + Receipt \<Rightarrow> Address \<Rightarrow> Hash \<Rightarrow> Hash \<Rightarrow> error option" where
  "checkReceipt claimedTopic receipt contractAddr contractSwapID secret =
     (case receipt of
        Inl err \<Rightarrow> Some err
      | Inr r \<Rightarrow>
          if ReceiptStatus r \<noteq> ReceiptStatusSuccessful then Some errClaimTransactionFailed
          else if length (Logs r) = 0 then Some errClaimTransactionNoLogs
          else
            (case checkClaimedLog claimedTopic (Logs r ! 0) contractAddr contractSwapID secret of
               Some err \<Rightarrow> Some (errClaimLogs err)
             | None \<Rightarrow> None))"

definition waitForClaimReceipt ::
  "Hash \<Rightarrow> Poll list \<Rightarrow> error + Receipt \<Rightarrow> Address \<Rightarrow> Hash \<Rightarrow> Hash \<Rightarrow> error option option" where
  "waitForClaimReceipt claimedTopic polls receipt contractAddr contractSwapID secret =
     (case waitForInclusion 0 polls of
        None \<Rightarrow> None
      | Some (Some err) \<Rightarrow> Some (Some err)
      | Some None \<Rightarrow> Some (checkReceipt claimedTopic receipt contractAddr contractSwapID secret))"

section \<open>protocol/xmrmaker/swap_state.go\<close>

text \<open>
  Modelled from the spec: the enumeration \<^verbatim>\<open>types.Status\<close> is declared in common/types,
  which is not among the sources; the spec's data model lists its values in the order of
  the swap's life. \<open>spec_stage\<close> is that order, the "at least" of the recovery policy.
\<close>

datatype Status =
  Ongoing | KeysExchanged | ETHLocked | XMRLocked | ContractReady |
  CompletedSuccess | CompletedRefund | CompletedAbort

fun spec_stage :: "Status \<Rightarrow> nat" where
  "spec_stage Ongoing = 0"
| "spec_stage KeysExchanged = 1"
| "spec_stage ETHLocked = 2"
| "spec_stage XMRLocked = 3"
| "spec_stage ContractReady = 4"
| "spec_stage CompletedSuccess = 5"
| "spec_stage CompletedRefund = 5"
| "spec_stage CompletedAbort = 5"

definition spec_terminal :: "Status \<Rightarrow> bool" where
  "spec_terminal st \<longleftrightarrow> st \<in> {CompletedSuccess, CompletedRefund, CompletedAbort}"

text \<open>
  Modelled from the spec: \<open>EventType\<close> and the events themselves are declared in
  protocol/xmrmaker/event.go, which is not among the sources; the spec's input alphabet of
  the state machine lists them, and \<open>EventNoneType\<close> is the "None (terminal)" of its
  description of Exit.
\<close>

datatype EventType =
  EventKeysReceivedType | EventETHLockedType | EventContractReadyType | EventETHRefundedType |
  EventShouldRefundType | EventExitType | EventNoneType

datatype Event =
  EventKeysReceived | EventETHLocked | EventContractReady | EventETHRefunded |
  EventShouldRefund | EventExit

text \<open>
  Modelled from the spec: \<^verbatim>\<open>pswap.Info\<close> (protocol/swap, not among the sources), the spec's
  SwapInfo, with the fields this file reads.
\<close>

record Info =
  OfferID :: Hash
  Status :: Status
  MoneroStartHeight :: "64 word"

text \<open>\<^verbatim>\<open>db.EthereumSwapInfo\<close>; \<open>StartNumber\<close> is a \<^verbatim>\<open>*big.Int\<close>, \<open>Swap\<close> a pointer.\<close>

record EthereumSwapInfo =
  StartNumber :: int
  SwapID :: Hash
  Swap_info :: "SwapFactorySwap option"
  ContractAddress :: Address

text \<open>
  The key material of package crypto/monero, which is not among the sources: a key is its
  bytes. \<open>SpendKeyBytes\<close> is the method of \<^verbatim>\<open>*mcrypto.PrivateKeyPair\<close> that returns the bytes
  of the private spend key; \<open>Secret\<close> is the 32-byte array \<^verbatim>\<open>dleqProof.Secret()\<close> returns.
\<close>

record PrivateKeyPair =
  spendKey :: "byte list"
  viewKey :: "byte list"

record PublicKeyPair =
  publicSpendKey :: "byte list"
  publicViewKey :: "byte list"

record DLEqProof =
  Secret_dleq :: Hash
  Proof_dleq :: "byte list"

definition SpendKeyBytes :: "PrivateKeyPair \<Rightarrow> byte list" where
  "SpendKeyBytes kp = spendKey kp"

text \<open>
  Modelled from the spec: \<^verbatim>\<open>common.Reverse\<close> (common/utils.go) is not among the sources;
  its test \<^verbatim>\<open>TestReverse\<close> in common/utils_test.go is, and fixes it: the bytes in the
  opposite order, in a new slice (\<^verbatim>\<open>Reverse([0xa, 0xb, 0xc]) = [0xc, 0xb, 0xa]\<close>).
\<close>

definition Reverse :: "byte list \<Rightarrow> byte list" where
  "Reverse s = rev s"

text \<open>
  What \<open>exit\<close>'s deferred function does to the swap manager, the offer manager, the recovery
  database, the swap's context and its \<open>done\<close> channel, recorded in the order of the
  calls. Whether \<open>done\<close> was closed before is not part of the model.
\<close>

datatype Effect =
  CompleteOngoingSwap_call | AddOffer_call | DeleteOffer_call | DeleteSwap_call |
  cancel_call | close_done

text \<open>
  The fields of \<open>swapState\<close> that the modelled functions read or write. \<open>eventCh\<close> holds
  the events waiting in the channel, oldest first; \<open>senderContract\<close> is the address the
  \<open>sender\<close> was last given by \<open>SetContractAddress\<close>; \<open>startNumber\<close> is the block the two
  event watchers start from.
\<close>

record swapState =
  info :: Info
  offer :: Offer
  UseRelayer :: bool
  dleqProof :: "DLEqProof option"
  privkeys :: "PrivateKeyPair option"
  pubkeys :: "PublicKeyPair option"
  contractAddr :: Address
  contractSwapID :: Hash
  contractSwap :: "SwapFactorySwap option"
  t0 :: int
  t1 :: int
  moneroStartHeight :: "64 word"
  nextExpectedEvent :: EventType
  fundsLocked :: bool
  startNumber :: int
  senderContract :: "Address option"
  eventCh :: "Event list"
  effects :: "Effect list"

text \<open>
  The backend and the parts of package xmrmaker outside the sources, as parameters: whether
  a constructor or a watcher's \<open>Start\<close> fails, the function
  \<open>nextExpectedEventFromStatus\<close>, the derivation of the public keys, the swap manager's
  \<open>CompleteOngoingSwap\<close>, and the two event handlers \<open>exit\<close> calls.
\<close>

record Backend =
  NewIERC20 :: "Address \<Rightarrow> error option"
  NewTxSender :: "Address \<Rightarrow> error option"
  readyWatcher_Start :: "error option"
  refundedWatcher_Start :: "error option"
  NewSwapFactory :: "Address \<Rightarrow> error option"
  nextExpectedEventFromStatus :: "Status \<Rightarrow> EventType"
  PublicKeyPair_of :: "PrivateKeyPair \<Rightarrow> PublicKeyPair"
  CompleteOngoingSwap :: "Info \<Rightarrow> error option"
  handleEventETHRefunded :: "swapState \<Rightarrow> error option \<times> swapState"
  handleEventContractReady :: "swapState \<Rightarrow> error option \<times> swapState"

definition newSwapState ::
  "Backend \<Rightarrow> Offer \<Rightarrow> bool \<Rightarrow> int \<Rightarrow> 64 word \<Rightarrow> Info \<Rightarrow> error + swapState" where
  "newSwapState b ofr useRelayer ethStartNumber moneroStartNumber swapInfo =
     (case (if EthAsset ofr \<noteq> EthAssetETH then
              (case NewIERC20 b (EthAsset ofr) of
                 Some err \<Rightarrow> Some err
               | None \<Rightarrow> NewTxSender b (EthAsset ofr))
            else NewTxSender b (EthAsset ofr)) of
        Some err \<Rightarrow> Inl err
      | None \<Rightarrow>
          (case readyWatcher_Start b of
             Some err \<Rightarrow> Inl err
           | None \<Rightarrow>
               (case refundedWatcher_Start b of
                  Some err \<Rightarrow> Inl err
                | None \<Rightarrow>
                    Inr \<lparr>info = swapInfo, offer = ofr, UseRelayer = useRelayer, dleqProof = None,
                         privkeys = None, pubkeys = None, contractAddr = 0,
                         contractSwapID = EmptyHash, contractSwap = None, t0 = 0, t1 = 0,
                         moneroStartHeight = moneroStartNumber,
                         nextExpectedEvent = nextExpectedEventFromStatus b (Status swapInfo),
                         fundsLocked = False, startNumber = ethStartNumber,
                         senderContract = None, eventCh = [], effects = []\<rparr>)))"

definition setContract :: "Backend \<Rightarrow> swapState \<Rightarrow> Address \<Rightarrow> error + swapState" where
  "setContract b s address =
     (case NewSwapFactory b address of
        Some err \<Rightarrow> Inl err
      | None \<Rightarrow> Inr (s\<lparr>contractAddr := address, senderContract := Some address\<rparr>))"

text \<open>
  Modelled from the spec: \<open>setTimeouts\<close> is defined outside the sources; it stores the two
  contract timeouts (the spec's \<open>t0\<close> and \<open>t1\<close>) in the state.
\<close>

definition setTimeouts :: "swapState \<Rightarrow> int \<Rightarrow> int \<Rightarrow> swapState" where
  "setTimeouts s timeout0 timeout1 = s\<lparr>t0 := timeout0, t1 := timeout1\<rparr>"

definition newSwapStateFromOngoing ::
  "Backend \<Rightarrow> Offer \<Rightarrow> bool \<Rightarrow> EthereumSwapInfo \<Rightarrow> Info \<Rightarrow> PrivateKeyPair \<Rightarrow> error + swapState" where
  "newSwapStateFromOngoing b ofr useRelayer ethSwapInfo swapInfo sk =
     (if Status swapInfo \<noteq> XMRLocked then Inl errInvalidStageForRecovery
      else
        (case newSwapState b ofr useRelayer (StartNumber ethSwapInfo) (MoneroStartHeight swapInfo) swapInfo of
           Inl err \<Rightarrow> Inl err
         | Inr s \<Rightarrow>
             (case setContract b s (ContractAddress ethSwapInfo) of
                Inl err \<Rightarrow> Inl err
              | Inr s \<Rightarrow>
                  (case Swap_info ethSwapInfo of
                     None \<Rightarrow> Inl NilPointerDereference
                   | Some swap \<Rightarrow>
                       Inr ((setTimeouts s (Timeout0 swap) (Timeout1 swap))
                            \<lparr>privkeys := Some sk, pubkeys := Some (PublicKeyPair_of b sk),
                             contractSwapID := SwapID ethSwapInfo,
                             contractSwap := Some swap\<rparr>)))))"

text \<open>
  Modelled from the spec: \<open>clearNextExpectedEvent\<close> is defined outside the sources. By its
  name and the spec's description of Exit ("abort; status CompletedAbort", with "None" the
  terminal value of \<open>nextExpectedEvent\<close>) it clears the next expected event and sets the
  swap's status.
\<close>

definition clearNextExpectedEvent :: "swapState \<Rightarrow> Status \<Rightarrow> swapState" where
  "clearNextExpectedEvent s st =
     s\<lparr>nextExpectedEvent := EventNoneType, info := (info s)\<lparr>Status := st\<rparr>\<rparr>"

text \<open>The deferred function of \<open>exit\<close>; errors of the managers are logged, not returned.\<close>

definition exitDeferred :: "Backend \<Rightarrow> swapState \<Rightarrow> swapState" where
  "exitDeferred b s =
     (case CompleteOngoingSwap b (info s) of
        Some err \<Rightarrow> s\<lparr>effects := effects s @ [CompleteOngoingSwap_call]\<rparr>
      | None \<Rightarrow>
          s\<lparr>effects := effects s @ [CompleteOngoingSwap_call] @
               (if Status (info s) \<noteq> CompletedSuccess \<and> IsSet (offer s) then [AddOffer_call]
                else if Status (info s) = CompletedSuccess then [DeleteOffer_call]
                else []) @
               [DeleteSwap_call, cancel_call, close_done]\<rparr>)"

text \<open>
  \<open>exit\<close>: the \<^verbatim>\<open>switch\<close> on \<open>nextExpectedEvent\<close>, then the deferred function on the state
  the switch left. The result is \<open>None\<close> when the function never returns because it waits
  on an empty event channel; otherwise the returned error and the new state.
\<close>

definition exitSwitch :: "Backend \<Rightarrow> swapState \<Rightarrow> (error option \<times> swapState) option" where
  "exitSwitch b s =
     (case nextExpectedEvent s of
        EventETHLockedType \<Rightarrow> Some (None, clearNextExpectedEvent s CompletedAbort)
      | EventContractReadyType \<Rightarrow>
          (case eventCh s of
             [] \<Rightarrow> None
           | event # rest \<Rightarrow>
               (case event of
                  EventETHRefunded \<Rightarrow> Some (handleEventETHRefunded b (s\<lparr>eventCh := rest\<rparr>))
                | EventContractReady \<Rightarrow> Some (handleEventContractReady b (s\<lparr>eventCh := rest\<rparr>))
                | _ \<Rightarrow> Some (None, s\<lparr>eventCh := rest\<rparr>)))
      | EventNoneType \<Rightarrow> Some (None, s)
      | _ \<Rightarrow> Some (Some errUnexpectedMessageType, clearNextExpectedEvent s CompletedAbort))"

definition exit :: "Backend \<Rightarrow> swapState \<Rightarrow> (error option \<times> swapState) option" where
  "exit b s =
     (case exitSwitch b s of
        None \<Rightarrow> None
      | Some (err, s') \<Rightarrow> Some (err, exitDeferred b s'))"

text \<open>\<open>getSecret\<close>; \<^verbatim>\<open>s.privkeys\<close> is a pointer, and calling its method on nil panics.\<close>

definition getSecret :: "swapState \<Rightarrow> error + Hash" where
  "getSecret s =
     (case dleqProof s of
        Some p \<Rightarrow> Inr (Secret_dleq p)
      | None \<Rightarrow>
          (case privkeys s of
             None \<Rightarrow> Inl NilPointerDereference
           | Some kp \<Rightarrow> Inr (copy32 (Reverse (SpendKeyBytes kp)))))"

section \<open>Concrete inputs\<close>

text \<open>
  Inputs at which the theorems below are instantiated. Where a function takes a library as
  a parameter, the instance is a small stand-in with the library's type: \<open>standInHash\<close> (the
  first 32 bytes of the input, padded with zeros) is \<^emph>\<open>not\<close> SHA3-256, and the stand-in JSON
  codec knows three documents only.
\<close>

definition standInHash :: "string \<Rightarrow> Hash" where
  "standInHash b = copy32 (map (\<lambda>c. of_nat (of_char c)) b)"

definition standInAssetString :: "Address \<Rightarrow> string" where
  "standInAssetString a = (if a = EthAssetETH then ''ETH'' else ''ERC20'')"

definition standInValidatePositive :: "string \<Rightarrow> Decimal option \<Rightarrow> error option" where
  "standInValidatePositive name v =
     (case v of
        None \<Rightarrow> Some (ExternalError (name @ '' is not set''))
      | Some d \<Rightarrow>
          if Negative d \<or> Coeff d = 0 then Some (ExternalError (name @ '' must be positive''))
          else None)"

definition dec :: "nat \<Rightarrow> int \<Rightarrow> Decimal" where
  "dec c e = \<lparr>Negative = False, Coeff = c, Exponent = e\<rparr>"

text \<open>Two offers that differ in how the minimum amount is stored: \<open>0.1\<close> and \<open>0.10\<close>.\<close>

definition reducedOffer :: Offer where
  "reducedOffer =
     \<lparr>Version = CurOfferVersion, ID = standInHash ''1.0.0XMR,0.1,1,1,ETH,7'', Provides = ''XMR'',
      MinAmount = Some (dec 1 (- 1)), MaxAmount = Some (dec 1 0), ExchangeRate = Some (dec 1 0),
      EthAsset = EthAssetETH, Nonce = 7\<rparr>"

definition unreducedOffer :: Offer where
  "unreducedOffer =
     \<lparr>Version = CurOfferVersion, ID = standInHash ''1.0.0XMR,0.10,1,1,ETH,7'', Provides = ''XMR'',
      MinAmount = Some (dec 10 (- 2)), MaxAmount = Some (dec 1 0), ExchangeRate = Some (dec 1 0),
      EthAsset = EthAssetETH, Nonce = 7\<rparr>"

definition reducedJSON :: string where
  \<open>reducedJSON = ''{"version":"1.0.0","offerID":"0x312e302e30584d522c302e312c312c312c4554482c3700000000000000000000","provides":"XMR","minAmount":"0.1","maxAmount":"1","exchangeRate":"1","ethAsset":"ETH","nonce":7}''\<close>

definition unreducedJSON :: string where
  \<open>unreducedJSON = ''{"version":"1.0.0","offerID":"0x312e302e30584d522c302e31302c312c312c4554482c37000000000000000000","provides":"XMR","minAmount":"0.10","maxAmount":"1","exchangeRate":"1","ethAsset":"ETH","nonce":7}''\<close>

definition noVersionJSON :: string where
  \<open>noVersionJSON = ''{"provides":"XMR"}''\<close>

definition futureVersionJSON :: string where
  \<open>futureVersionJSON = ''{"version":"1.0.1","provides":"XMR"}''\<close>

definition badAmountJSON :: string where
  \<open>badAmountJSON = ''{"version":"1.0.0","minAmount":"x"}''\<close>

definition standInExtern :: Extern where
  "standInExtern =
     \<lparr>sha3_Sum256 = standInHash,
      EthAsset_String = standInAssetString,
      ValidatePositive = standInValidatePositive,
      Unmarshal_version =
        (\<lambda>js. if js = reducedJSON \<or> js = unreducedJSON \<or> js = badAmountJSON
                 then Inr (Some CurOfferVersion)
              else if js = futureVersionJSON then Inr (Some \<lparr>Major = 1, Minor = 0, Patch = 1\<rparr>)
              else if js = noVersionJSON then Inr None
              else Inl (ExternalError ''json: syntax error'')),
      MarshalStruct_Offer =
        (\<lambda>ofr. if ofr = reducedOffer then Inr reducedJSON
               else if ofr = unreducedOffer then Inr unreducedJSON
               else Inl (ExternalError ''json: unsupported value'')),
      UnmarshalStruct_Offer =
        (\<lambda>js. if js = reducedJSON then Inr reducedOffer
              else if js = unreducedJSON then Inr unreducedOffer
              else Inl (ExternalError ''json: cannot unmarshal''))\<rparr>"

text \<open>A decoder for message bodies that accepts the empty JSON object only.\<close>

definition standInUnmarshalStruct :: "Message \<Rightarrow> byte list \<Rightarrow> error + byte list" where
  "standInUnmarshalStruct msg js =
     (if js = [123, 125] then Inr js else Inl (ExternalError ''json: cannot unmarshal''))"

text \<open>A relay claim request for a swap of the given asset and value; the relayer's fee of
  scenario S2 of the spec.\<close>

definition checkPasses :: "Address \<Rightarrow> error option" where
  "checkPasses a = None"

definition sampleSwap :: "Address \<Rightarrow> int \<Rightarrow> SwapFactorySwap" where
  "sampleSwap asset v =
     \<lparr>Owner = 170, Claimer = 187, PubKeyClaim = replicate 32 1, PubKeyRefund = replicate 32 2,
      Timeout0 = 1000, Timeout1 = 2000, Asset = asset, Value = v, SwapNonce = 42\<rparr>"

definition sampleRequest :: "Address \<Rightarrow> int \<Rightarrow> RelayClaimRequestBody" where
  "sampleRequest asset v =
     \<lparr>SwapFactoryAddress = 7, Swap = Some (sampleSwap asset v), Secret = replicate 32 3,
      Signature = replicate 65 4\<rparr>"

definition sampleFeeWei :: int where
  "sampleFeeWei = 100000000000000"

text \<open>Answers of the Ethereum client, and a receipt whose only log has the given topics.\<close>

definition sampleTopic :: Hash where "sampleTopic = replicate 32 17"
definition sampleSwapID :: Hash where "sampleSwapID = replicate 32 34"
definition sampleSecret :: Hash where "sampleSecret = replicate 32 51"

definition pollNotFound :: Poll where
  "pollNotFound = \<lparr>sleepErr = None, answer = TxError NotFound, sinceStart = 1000000000\<rparr>"

definition pollPending :: Poll where
  "pollPending = \<lparr>sleepErr = None, answer = TxFound True, sinceStart = 1000000000\<rparr>"

definition pollMined :: Poll where
  "pollMined = \<lparr>sleepErr = None, answer = TxFound False, sinceStart = 2000000000\<rparr>"

definition claimedReceipt :: "Hash list \<Rightarrow> Receipt" where
  "claimedReceipt topics = \<lparr>ReceiptStatus = 1, Logs = [\<lparr>LogAddress = 7, Topics = topics\<rparr>]\<rparr>"

text \<open>A backend in which every constructor succeeds, and a swap state in a given phase.\<close>

definition sampleKeys :: PrivateKeyPair where
  "sampleKeys = \<lparr>spendKey =
       [1, 2, 3, 4, 5, 6, 7, 8, 9, 10, 11, 12, 13, 14, 15, 16, 17, 18, 19, 20,
      21, 22, 23, 24, 25, 26, 27, 28, 29, 30, 31, 32], viewKey = replicate 32 9\<rparr>"

definition sampleInfo :: "Status \<Rightarrow> Info" where
  "sampleInfo st = \<lparr>OfferID = ID reducedOffer, Status = st, MoneroStartHeight = 100\<rparr>"

definition sampleEthSwapInfo :: EthereumSwapInfo where
  "sampleEthSwapInfo =
     \<lparr>StartNumber = 500, SwapID = sampleSwapID,
      Swap_info = Some (sampleSwap EthAssetETH 1000000000000000000), ContractAddress = 7\<rparr>"

definition sampleState :: "EventType \<Rightarrow> Status \<Rightarrow> swapState" where
  "sampleState ev st =
     \<lparr>info = sampleInfo st, offer = reducedOffer, UseRelayer = False, dleqProof = None,
      privkeys = Some sampleKeys, pubkeys = None, contractAddr = 7,
      contractSwapID = sampleSwapID, contractSwap = None, t0 = 1000, t1 = 2000,
      moneroStartHeight = 100, nextExpectedEvent = ev, fundsLocked = False, startNumber = 500,
      senderContract = Some 7, eventCh = [], effects = []\<rparr>"

definition sampleBackend :: Backend where
  "sampleBackend =
     \<lparr>NewIERC20 = (\<lambda>a. None), NewTxSender = (\<lambda>a. None), readyWatcher_Start = None,
      refundedWatcher_Start = None, NewSwapFactory = (\<lambda>a. None),
      nextExpectedEventFromStatus =
        (\<lambda>st. if st = XMRLocked then EventContractReadyType else EventETHLockedType),
      PublicKeyPair_of = (\<lambda>kp. \<lparr>publicSpendKey = spendKey kp, publicViewKey = viewKey kp\<rparr>),
      CompleteOngoingSwap = (\<lambda>i. None),
      handleEventETHRefunded = (\<lambda>s. (None, s)),
      handleEventContractReady = (\<lambda>s. (None, s))\<rparr>"

section \<open>Properties\<close>

subsection \<open>HexToHash\<close>

lemma is_hex_of_Nil: "is_hex_of [] bs \<longleftrightarrow> bs = []"
  by (auto simp: is_hex_of_def)

lemma is_hex_of_single: "\<not> is_hex_of [p] bs"
  by (auto simp: is_hex_of_def)

lemma is_hex_of_Cons2:
  "is_hex_of (p # q # rest) bs \<longleftrightarrow>
     (\<exists>a b bs'. fromHexChar p = Some a \<and> fromHexChar q = Some b \<and>
        bs = (push_bit 4 a OR b) # bs' \<and> is_hex_of rest bs')"
proof
  assume h: "is_hex_of (p # q # rest) bs"
  then have len: "Suc (Suc (length rest)) = 2 * length bs"
    by (simp add: is_hex_of_def)
  then obtain x bs' where bs: "bs = x # bs'" by (cases bs) auto
  from h bs have "\<exists>a b. fromHexChar p = Some a \<and> fromHexChar q = Some b \<and> x = (push_bit 4 a OR b)"
    unfolding is_hex_of_def by (auto dest: spec[where x=0])
  moreover have "is_hex_of rest bs'"
    unfolding is_hex_of_def
  proof (intro conjI allI impI)
    show "length rest = 2 * length bs'" using len bs by simp
    fix i assume "i < length bs'"
    then have "Suc i < length bs" using bs by simp
    with h have "\<exists>a b. fromHexChar ((p # q # rest) ! (2 * Suc i)) = Some a \<and>
        fromHexChar ((p # q # rest) ! (2 * Suc i + 1)) = Some b \<and> bs ! Suc i = (push_bit 4 a OR b)"
      unfolding is_hex_of_def by blast
    then show "\<exists>a b. fromHexChar (rest ! (2 * i)) = Some a \<and>
        fromHexChar (rest ! (2 * i + 1)) = Some b \<and> bs' ! i = (push_bit 4 a OR b)"
      using bs by simp
  qed
  ultimately show "\<exists>a b bs'. fromHexChar p = Some a \<and> fromHexChar q = Some b \<and>
        bs = (push_bit 4 a OR b) # bs' \<and> is_hex_of rest bs'"
    using bs by blast
next
  assume "\<exists>a b bs'. fromHexChar p = Some a \<and> fromHexChar q = Some b \<and>
        bs = (push_bit 4 a OR b) # bs' \<and> is_hex_of rest bs'"
  then obtain a b bs' where ab: "fromHexChar p = Some a" "fromHexChar q = Some b"
    and bs: "bs = (push_bit 4 a OR b) # bs'" and r: "is_hex_of rest bs'" by blast
  show "is_hex_of (p # q # rest) bs"
    unfolding is_hex_of_def
  proof (intro conjI allI impI)
    show "length (p # q # rest) = 2 * length bs" using r bs by (simp add: is_hex_of_def)
    fix i assume i: "i < length bs"
    show "\<exists>a b. fromHexChar ((p # q # rest) ! (2 * i)) = Some a \<and>
        fromHexChar ((p # q # rest) ! (2 * i + 1)) = Some b \<and> bs ! i = (push_bit 4 a OR b)"
    proof (cases i)
      case 0
      then show ?thesis using ab bs by simp
    next
      case (Suc j)
      then have "j < length bs'" using i bs by simp
      with r have "\<exists>a b. fromHexChar (rest ! (2 * j)) = Some a \<and>
        fromHexChar (rest ! (2 * j + 1)) = Some b \<and> bs' ! j = (push_bit 4 a OR b)"
        unfolding is_hex_of_def by blast
      then show ?thesis using Suc bs by simp
    qed
  qed
qed

text \<open>The decoder succeeds exactly on the texts that are the hex of some bytes.\<close>

lemma hex_DecodeString_iff: "hex_DecodeString t = Inr bs \<longleftrightarrow> is_hex_of t bs"
proof (induction t arbitrary: bs rule: hex_DecodeString.induct)
  case 1
  then show ?case by (auto simp: is_hex_of_Nil)
next
  case (2 p)
  then show ?case by (simp add: is_hex_of_single split: option.splits)
next
  case (3 p q rest)
  show ?case
  proof (cases "fromHexChar p")
    case None
    then show ?thesis by (simp add: is_hex_of_Cons2)
  next
    case a: (Some a)
    show ?thesis
    proof (cases "fromHexChar q")
      case None
      then show ?thesis using a by (simp add: is_hex_of_Cons2)
    next
      case b: (Some b)
      have ih: "\<And>bs'. hex_DecodeString rest = Inr bs' \<longleftrightarrow> is_hex_of rest bs'"
        using 3[OF a b] .
      show ?thesis
        using a b by (auto simp: is_hex_of_Cons2 ih[symmetric] split: sum.splits)
    qed
  qed
qed

text \<open>
  C10. \<open>HexToHash\<close> returns the all-zero hash and no error for the empty string; for a
  non-empty input it returns a hash \<open>h\<close> exactly when the input, after an optional \<open>0x\<close>
  prefix is stripped, is the hex of the 32 bytes \<open>h\<close> (so it fails on every input that is
  not valid hex or decodes to another number of bytes).
\<close>

theorem HexToHash_spec:
  "HexToHash [] = Inr EmptyHash \<and>
   (s \<noteq> [] \<longrightarrow>
      (HexToHash s = Inr h \<longleftrightarrow> is_hex_of (TrimPrefix s ''0x'') h \<and> length h = 32))"
  by (auto simp: HexToHash_def copy32_def hex_DecodeString_iff[symmetric] split: sum.splits)

theorem HexToHash_spec_witness:
  "is_hex_of (TrimPrefix ''0x0102030405060708090a0b0c0d0e0f101112131415161718191A1B1C1D1E1F20'' ''0x'')
     
     [1, 2, 3, 4, 5, 6, 7, 8, 9, 10, 11, 12, 13, 14, 15, 16, 17, 18, 19, 20,
      21, 22, 23, 24, 25, 26, 27, 28, 29, 30, 31, 32] \<and>
   HexToHash ''0x0102030405060708090a0b0c0d0e0f101112131415161718191A1B1C1D1E1F20''
     = Inr 
     [1, 2, 3, 4, 5, 6, 7, 8, 9, 10, 11, 12, 13, 14, 15, 16, 17, 18, 19, 20,
      21, 22, 23, 24, 25, 26, 27, 28, 29, 30, 31, 32] \<and>
   HexToHash ''0102030405060708090a0b0c0d0e0f101112131415161718191A1B1C1D1E1F20''
     = Inr 
     [1, 2, 3, 4, 5, 6, 7, 8, 9, 10, 11, 12, 13, 14, 15, 16, 17, 18, 19, 20,
      21, 22, 23, 24, 25, 26, 27, 28, 29, 30, 31, 32]"
proof -
  let ?s = "''0x0102030405060708090a0b0c0d0e0f101112131415161718191A1B1C1D1E1F20''"
  let ?t = "''0102030405060708090a0b0c0d0e0f101112131415161718191A1B1C1D1E1F20''"
  let ?h = "[1, 2, 3, 4, 5, 6, 7, 8, 9, 10, 11, 12, 13, 14, 15, 16, 17, 18, 19, 20,
      21, 22, 23, 24, 25, 26, 27, 28, 29, 30, 31, 32] :: byte list"
  have t: "hex_DecodeString ?t = Inr ?h"
    by (simp add: fromHexChar_def)
  have e: "HexToHash ?s = Inr ?h"
    using t by (simp add: HexToHash_def TrimPrefix_def copy32_def)
  have e': "HexToHash ?t = Inr ?h"
    using t by (simp add: HexToHash_def TrimPrefix_def copy32_def)
  show ?thesis
    using e e' HexToHash_spec [of ?s ?h] by simp
qed

subsection \<open>DecodeMessage\<close>

lemmas type_codes =
  QueryResponseType_def RelayClaimRequestType_def RelayClaimResponseType_def
  SendKeysType_def NotifyETHLockedType_def

lemma spec_type_code_None: "spec_type_code c = None \<longleftrightarrow> c \<notin> {1, 2, 3, 4, 5}"
  by (auto simp: spec_type_code_def)

lemma spec_type_code_Type: "spec_type_code c = Some msg \<longleftrightarrow> Type msg = c"
  by (cases msg) (auto simp: spec_type_code_def type_codes)

text \<open>
  C3. \<open>DecodeMessage\<close> fails on every input shorter than 3 bytes; an input of 3 bytes or
  more passes the length check, and then fails with the invalid-message-type error when its
  first byte is none of the type codes 1 to 5, and otherwise hands the bytes after the
  first to the decoder of the message type the spec's table gives for that code (a failure
  of that decoder is returned wrapped, with the type's name).
\<close>

theorem DecodeMessage_spec:
  "(length b < 3 \<longrightarrow> DecodeMessage U b = Inl errInvalidMessageBytes) \<and>
   (3 \<le> length b \<longrightarrow> spec_type_code (b ! 0) = None \<longrightarrow>
      DecodeMessage U b = Inl (errInvalidMessageType (b ! 0))) \<and>
   (3 \<le> length b \<longrightarrow> spec_type_code (b ! 0) = Some msg \<longrightarrow>
      DecodeMessage U b =
        (case U msg (drop 1 b) of
           Inl err \<Rightarrow> Inl (errFailedToDecode (TypeToString (Type msg)) err)
         | Inr body \<Rightarrow> Inr (msg, body)))"
  by (auto simp: DecodeMessage_def spec_type_code_def type_codes Let_def split: if_splits)

theorem DecodeMessage_spec_witness:
  "DecodeMessage standInUnmarshalStruct [4, 123] = Inl errInvalidMessageBytes \<and>
   DecodeMessage standInUnmarshalStruct [9, 123, 125] = Inl (errInvalidMessageType 9) \<and>
   DecodeMessage standInUnmarshalStruct [0, 123, 125] = Inl (errInvalidMessageType 0) \<and>
   DecodeMessage standInUnmarshalStruct [4, 123, 125] = Inr (SendKeysMessage, [123, 125]) \<and>
   DecodeMessage standInUnmarshalStruct [2, 123, 125, 125] =
     Inl (errFailedToDecode ''RelayClaimRequestType'' (ExternalError ''json: cannot unmarshal''))"
  using DecodeMessage_spec [of "[4, 123]" standInUnmarshalStruct]
    DecodeMessage_spec [of "[9, 123, 125]" standInUnmarshalStruct]
    DecodeMessage_spec [of "[0, 123, 125]" standInUnmarshalStruct]
    DecodeMessage_spec [of "[4, 123, 125]" standInUnmarshalStruct SendKeysMessage]
    DecodeMessage_spec [of "[2, 123, 125, 125]" standInUnmarshalStruct RelayClaimRequest]
  by (simp add: spec_type_code_def standInUnmarshalStruct_def TypeToString_def type_codes)

subsection \<open>validateClaimValues\<close>

text \<open>
  C5, as amended. For a request whose bytecode check passes (the request names our own
  swap factory, or the check returns no error): the result is the unsupported-asset error
  exactly when the asset is not ETH; it is the value-too-low error exactly when the asset
  is ETH and the value is at most \<open>FeeWei\<close>; it is success exactly when the asset is ETH and
  the value is above \<open>FeeWei\<close>; and there is no fourth outcome.
\<close>

theorem validateClaimValues_spec:
  assumes "SwapFactoryAddress req = ours \<or> Check (SwapFactoryAddress req) = None"
    and "Swap req = Some swap"
  shows "(validateClaimValues Check FeeWei req ours = Some (errUnsupportedAsset (Asset swap))
            \<longleftrightarrow> Asset swap \<noteq> EthAssetETH) \<and>
         (validateClaimValues Check FeeWei req ours = Some (errSwapValueTooLow (Value swap) FeeWei)
            \<longleftrightarrow> Asset swap = EthAssetETH \<and> Value swap \<le> FeeWei) \<and>
         (validateClaimValues Check FeeWei req ours = None
            \<longleftrightarrow> Asset swap = EthAssetETH \<and> FeeWei < Value swap) \<and>
         validateClaimValues Check FeeWei req ours \<in>
           {None, Some (errUnsupportedAsset (Asset swap)),
            Some (errSwapValueTooLow (Value swap) FeeWei)}"
  using assms by (auto simp: validateClaimValues_def)

theorem validateClaimValues_spec_witness:
  "validateClaimValues checkPasses sampleFeeWei (sampleRequest EthAssetETH 100000000000000000) 7
     = None \<and>
   validateClaimValues checkPasses sampleFeeWei (sampleRequest EthAssetETH sampleFeeWei) 8
     = Some (errSwapValueTooLow sampleFeeWei sampleFeeWei) \<and>
   validateClaimValues checkPasses sampleFeeWei (sampleRequest 5 100000000000000000) 7
     = Some (errUnsupportedAsset 5)"
  using
    validateClaimValues_spec [of "sampleRequest EthAssetETH 100000000000000000" 7 checkPasses
      "sampleSwap EthAssetETH 100000000000000000" sampleFeeWei]
    validateClaimValues_spec [of "sampleRequest EthAssetETH sampleFeeWei" 8 checkPasses
      "sampleSwap EthAssetETH sampleFeeWei" sampleFeeWei]
    validateClaimValues_spec [of "sampleRequest 5 100000000000000000" 7 checkPasses
      "sampleSwap 5 100000000000000000" sampleFeeWei]
  by (simp add: sampleRequest_def sampleSwap_def checkPasses_def EthAssetETH_def sampleFeeWei_def)

text \<open>
  The claim as stated fails: an ERC-20 swap whose value is below the fee passes the
  bytecode check and has \<open>value \<le> FeeWei\<close>, yet the error is the unsupported-asset one,
  not the value-too-low one, since the asset is tested first.
\<close>

theorem validateClaimValues_counterexample:
  "Value (sampleSwap 5 0) \<le> sampleFeeWei \<and>
   checkPasses (SwapFactoryAddress (sampleRequest 5 0)) = None \<and>
   validateClaimValues checkPasses sampleFeeWei (sampleRequest 5 0) 7
     = Some (errUnsupportedAsset 5) \<and>
   validateClaimValues checkPasses sampleFeeWei (sampleRequest 5 0) 7
     \<noteq> Some (errSwapValueTooLow 0 sampleFeeWei)"
  by (simp add: validateClaimValues_def sampleRequest_def sampleSwap_def checkPasses_def
      EthAssetETH_def sampleFeeWei_def)

subsection \<open>waitForClaimReceipt\<close>

text \<open>
  The counter of the loop only grows in the branch that its own test \<open>notFoundCount \<ge>
  maxNotFound\<close> guards, so below the cap a NotFound answer is returned at once.
\<close>

lemma waitForInclusion_NotFound:
  "sleepErr p = None \<Longrightarrow> answer p = TxError NotFound \<Longrightarrow> n < maxNotFound \<Longrightarrow>
   waitForInclusion n (p # ps) = Some (Some NotFound)"
  by simp

lemma waitForInclusion_NotFound_witness:
  "waitForInclusion 0 (pollNotFound # ps) = Some (Some NotFound)"
  using waitForInclusion_NotFound [of pollNotFound 0 ps]
  by (simp add: pollNotFound_def maxNotFound_def)

text \<open>
  C1. The code at the input "one NotFound answer, then the mined transaction with a valid
  receipt": it returns the NotFound error at the first answer, where the claim has it
  tolerate up to ten.
\<close>

theorem waitForClaimReceipt_NotFound_once:
  "waitForClaimReceipt sampleTopic [pollNotFound, pollMined]
     (Inr (claimedReceipt [sampleTopic, sampleSwapID, sampleSecret])) 7 sampleSwapID sampleSecret
   = Some (Some NotFound)"
  by (simp add: waitForClaimReceipt_def pollNotFound_def maxNotFound_def)

lemma waitForClaimReceipt_without_NotFound:
  "waitForClaimReceipt sampleTopic [pollPending, pollMined]
     (Inr (claimedReceipt [sampleTopic, sampleSwapID, sampleSecret])) 7 sampleSwapID sampleSecret
   = Some None"
  by (simp add: waitForClaimReceipt_def pollPending_def pollMined_def maxWait_def
      checkReceipt_def claimedReceipt_def checkClaimedLog_def ReceiptStatusSuccessful_def)

lemma checkClaimedLog_None_iff:
  "checkClaimedLog T l addr sid sec = None \<longleftrightarrow> LogAddress l = addr \<and> Topics l = [T, sid, sec]"
proof (cases "length (Topics l) = 3")
  case True
  then obtain a b c where "Topics l = [a, b, c]"
    by (auto simp: numeral_3_eq_3 length_Suc_conv)
  then show ?thesis by (auto simp: checkClaimedLog_def)
next
  case False
  then show ?thesis by (auto simp: checkClaimedLog_def)
qed

text \<open>
  C6. Once the loop has seen the transaction mined, \<open>waitForClaimReceipt\<close> succeeds
  exactly when the receipt is fetched, its status is Success, it has at least one log, and
  the first log has the expected contract address and exactly the three topics \<open>[claimedTopic, contractSwapID, secret]\<close>. A first log of that contract, in a
  successful receipt, with any number of topics other than 3 (2 and 4 among them) is
  rejected with the wrong-topic-length error.
\<close>

theorem waitForClaimReceipt_checks:
  assumes "waitForInclusion 0 polls = Some None"
  shows "(waitForClaimReceipt T polls receipt addr sid sec = Some None \<longleftrightarrow>
            (\<exists>r. receipt = Inr r \<and> ReceiptStatus r = ReceiptStatusSuccessful \<and> Logs r \<noteq> [] \<and>
                 LogAddress (Logs r ! 0) = addr \<and> Topics (Logs r ! 0) = [T, sid, sec])) \<and>
         (\<forall>r. receipt = Inr r \<and> ReceiptStatus r = ReceiptStatusSuccessful \<and> Logs r \<noteq> [] \<and>
              LogAddress (Logs r ! 0) = addr \<and> length (Topics (Logs r ! 0)) \<noteq> 3 \<longrightarrow>
              waitForClaimReceipt T polls receipt addr sid sec
                = Some (Some (errClaimLogs errClaimedLogWrongTopicLength)))"
proof -
  have w: "waitForClaimReceipt T polls receipt addr sid sec
             = Some (checkReceipt T receipt addr sid sec)"
    using assms by (simp add: waitForClaimReceipt_def)
  have a: "checkReceipt T (Inr r) addr sid sec = None \<longleftrightarrow>
            ReceiptStatus r = ReceiptStatusSuccessful \<and> Logs r \<noteq> [] \<and>
            LogAddress (Logs r ! 0) = addr \<and> Topics (Logs r ! 0) = [T, sid, sec]" for r
  proof (cases "checkClaimedLog T (Logs r ! 0) addr sid sec")
    case None
    then show ?thesis
      using checkClaimedLog_None_iff [of T "Logs r ! 0" addr sid sec]
      by (simp add: checkReceipt_def)
  next
    case (Some e)
    then show ?thesis
      using checkClaimedLog_None_iff [of T "Logs r ! 0" addr sid sec]
      by (auto simp: checkReceipt_def)
  qed
  have a': "checkReceipt T receipt addr sid sec = None \<longleftrightarrow>
            (\<exists>r. receipt = Inr r \<and> ReceiptStatus r = ReceiptStatusSuccessful \<and> Logs r \<noteq> [] \<and>
                 LogAddress (Logs r ! 0) = addr \<and> Topics (Logs r ! 0) = [T, sid, sec])"
  proof (cases receipt)
    case (Inl e)
    then show ?thesis by (simp add: checkReceipt_def)
  next
    case (Inr r)
    then show ?thesis using a [of r] by simp
  qed
  have b: "ReceiptStatus r = ReceiptStatusSuccessful \<and> Logs r \<noteq> [] \<and>
            LogAddress (Logs r ! 0) = addr \<and> length (Topics (Logs r ! 0)) \<noteq> 3 \<longrightarrow>
            checkReceipt T (Inr r) addr sid sec = Some (errClaimLogs errClaimedLogWrongTopicLength)"
    for r
    by (auto simp: checkReceipt_def checkClaimedLog_def)
  show ?thesis using w a' b by auto
qed

theorem waitForClaimReceipt_checks_witness:
  "waitForInclusion 0 [pollPending, pollMined] = Some None \<and>
   waitForClaimReceipt sampleTopic [pollPending, pollMined]
     (Inr (claimedReceipt [sampleTopic, sampleSwapID, sampleSecret])) 7 sampleSwapID sampleSecret
       = Some None \<and>
   waitForClaimReceipt sampleTopic [pollPending, pollMined]
     (Inr (claimedReceipt [sampleTopic, sampleSwapID])) 7 sampleSwapID sampleSecret
       = Some (Some (errClaimLogs errClaimedLogWrongTopicLength)) \<and>
   waitForClaimReceipt sampleTopic [pollPending, pollMined]
     (Inr (claimedReceipt [sampleTopic, sampleSwapID, sampleSecret, sampleSecret])) 7
     sampleSwapID sampleSecret
       = Some (Some (errClaimLogs errClaimedLogWrongTopicLength))"
proof -
  have p: "waitForInclusion 0 [pollPending, pollMined] = Some None"
    by (simp add: pollPending_def pollMined_def maxWait_def)
  show ?thesis
    using p
      waitForClaimReceipt_checks [OF p, of sampleTopic
        "Inr (claimedReceipt [sampleTopic, sampleSwapID, sampleSecret])" 7 sampleSwapID
        sampleSecret]
      waitForClaimReceipt_checks [OF p, of sampleTopic
        "Inr (claimedReceipt [sampleTopic, sampleSwapID])" 7 sampleSwapID sampleSecret]
      waitForClaimReceipt_checks [OF p, of sampleTopic
        "Inr (claimedReceipt [sampleTopic, sampleSwapID, sampleSecret, sampleSecret])" 7
        sampleSwapID sampleSecret]
    by (simp add: claimedReceipt_def ReceiptStatusSuccessful_def)
qed

subsection \<open>Offers\<close>


lemma validate_Some_cases:
  assumes "validate X ofr = Some e"
  shows "e = errOfferIDNotSet \<or>
         ValidatePositive X ''minAmount'' (MinAmount ofr) = Some e \<or>
         ValidatePositive X ''maxAmount'' (MaxAmount ofr) = Some e \<or>
         e = errMinGreaterThanMax \<or> e = errExchangeRateNil \<or> e = errOfferHashMismatch \<or>
         e = NilPointerDereference"
  using assms
  by (auto simp: validate_def hash_def hashInput_def split: option.splits sum.splits if_splits)

text \<open>
  \<open>Reduce\<close> leaves a coefficient that does not end in 0, so reducing twice is reducing
  once, and the text of a reduced decimal with a fractional part does not end in \<open>0\<close>:
  the spec's "trailing-zero-free".
\<close>

lemma stripZeros_fixed: "c mod 10 \<noteq> 0 \<Longrightarrow> stripZeros c e = (c, e)"
  by (simp add: stripZeros.simps)

lemma stripZeros_result:
  "c \<noteq> 0 \<Longrightarrow> stripZeros c e = (c', e') \<Longrightarrow> c' \<noteq> 0 \<and> c' mod 10 \<noteq> 0"
proof (induction c e rule: stripZeros.induct)
  case (1 c e)
  show ?case
  proof (cases "c mod 10 = 0")
    case True
    with 1 have "c div 10 \<noteq> 0" by auto
    moreover from 1 True have "stripZeros (c div 10) (e + 1) = (c', e')"
      by (simp add: stripZeros.simps [of c e])
    ultimately show ?thesis using 1 True by simp
  next
    case False
    with 1 show ?thesis by (auto simp: stripZeros.simps [of c e])
  qed
qed

lemma digits10_nonempty: "digits10 n \<noteq> []"
  by (subst digits10.simps) simp

lemma last_digits10: "last (digits10 n) = digitChar (n mod 10)"
  by (subst digits10.simps) simp

lemma digitChar_nonzero: "0 < k \<Longrightarrow> k < 10 \<Longrightarrow> digitChar k \<noteq> CHR ''0''"
proof -
  assume "0 < k" "k < 10"
  then have "k \<in> {1, 2, 3, 4, 5, 6, 7, 8, 9}" by auto
  then show ?thesis by (auto simp: digitChar_def)
qed

lemma Text_f_last:
  assumes "Exponent d < 0"
  shows "last (Text_f d) = last (digits10 (Coeff d))"
proof -
  let ?ds = "digits10 (Coeff d)"
  let ?left = "- Exponent d - int (length ?ds)"
  have ne: "?ds \<noteq> []" by (rule digits10_nonempty)
  show ?thesis
  proof (cases "?left \<ge> 0")
    case True
    then show ?thesis using assms ne by (simp add: Text_f_def Let_def)
  next
    case False
    then have "nat (- ?left) < length ?ds" using assms by simp
    then have dn: "drop (nat (- ?left)) ?ds \<noteq> []" by simp
    have "last (take (nat (- ?left)) ?ds @ ''.'' @ drop (nat (- ?left)) ?ds)
            = last (drop (nat (- ?left)) ?ds)"
      using dn by simp
    also have "\<dots> = last ?ds" using dn by simp
    finally show ?thesis using assms False by (simp add: Text_f_def Let_def)
  qed
qed

lemma Text_f_Reduce_no_trailing_zero:
  assumes "Exponent (Reduce d) < 0"
  shows "last (Text_f (Reduce d)) \<noteq> CHR ''0''"
proof -
  have nz: "Coeff d \<noteq> 0"
  proof
    assume "Coeff d = 0"
    then have "Exponent (Reduce d) = 0" by (simp add: Reduce_def)
    with assms show False by simp
  qed
  obtain c' e' where s: "stripZeros (Coeff d) (Exponent d) = (c', e')" by force
  from stripZeros_result [OF nz s] have c': "c' mod 10 \<noteq> 0" by simp
  have r: "Coeff (Reduce d) = c'" using nz s by (simp add: Reduce_def)
  have "last (Text_f (Reduce d)) = digitChar (c' mod 10)"
    using Text_f_last [OF assms] r by (simp add: last_digits10)
  then show ?thesis using c' digitChar_nonzero [of "c' mod 10"] by simp
qed

lemma Reduce_idem: "Reduce (Reduce d) = Reduce d"
proof (cases "Coeff d = 0")
  case True
  then show ?thesis by (simp add: Reduce_def)
next
  case False
  obtain c' e' where s: "stripZeros (Coeff d) (Exponent d) = (c', e')" by force
  from stripZeros_result [OF False s] have c': "c' \<noteq> 0" "c' mod 10 \<noteq> 0" by auto
  have r: "Reduce d = \<lparr>Negative = Negative d, Coeff = c', Exponent = e'\<rparr>"
    using False s by (simp add: Reduce_def)
  show ?thesis
    unfolding r using c' by (simp add: Reduce_def stripZeros_fixed)
qed



text \<open>The stand-in library at the two sample offers.\<close>

lemmas stand_in_defs =
  standInExtern_def standInHash_def standInAssetString_def standInValidatePositive_def
  dec_def copy32_def

lemmas offer_eval =
  validate_def hash_def hashInput_def IsHashZero_def EmptyHash_def Cmp_def scaled_def
  Version_String_def CurOfferVersion_def Text_f_def digits10.simps digitChar_def
  ExchangeRate_String_def EthAssetETH_def

lemma Cons_neq_replicate: "x \<noteq> y \<Longrightarrow> x # xs \<noteq> replicate n y"
  by (cases n) auto

lemma hashInput_reduced:
  "hashInput standInExtern reducedOffer = Inr ''1.0.0XMR,0.1,1,1,ETH,7''"
  by (simp add: reducedOffer_def stand_in_defs offer_eval)


lemma validate_reduced: "validate standInExtern reducedOffer = None"
  by (simp add: reducedOffer_def stand_in_defs offer_eval Cons_neq_replicate)


lemma standIn_unmarshal: "UnmarshalStruct_Offer standInExtern reducedJSON = Inr reducedOffer"
  by (simp add: standInExtern_def)

lemma standIn_versions:
  "Unmarshal_version standInExtern [] = Inl (ExternalError ''json: syntax error'')"
  "Unmarshal_version standInExtern noVersionJSON = Inr None"
  "Unmarshal_version standInExtern futureVersionJSON = Inr (Some \<lparr>Major = 1, Minor = 0, Patch = 1\<rparr>)"
  "Unmarshal_version standInExtern reducedJSON = Inr (Some CurOfferVersion)"
  "Unmarshal_version standInExtern badAmountJSON = Inr (Some CurOfferVersion)"
  by (simp_all add: standInExtern_def reducedJSON_def unreducedJSON_def badAmountJSON_def
      futureVersionJSON_def noVersionJSON_def)



subsection \<open>UnmarshalOffer\<close>

text \<open>
  C9, as amended. \<open>UnmarshalOffer\<close> returns the decoder's error when the version cannot be
  decoded; the version-missing error when the field is absent; the version-unsupported
  error when the version is greater than the current one. For any other version (the
  current one among them) it returns the decoder's error when the document does not decode
  into the offer structure, and otherwise the offer, unless \<open>validate\<close> rejects it; the
  error is then the ID-not-set error, the error \<open>ValidatePositive\<close> gives for the minimum
  or the maximum amount, the min-greater-than-max error, the exchange-rate-nil error or the
  hash-mismatch error (or the panic on a nil amount, should \<open>ValidatePositive\<close> let one
  through).
\<close>

theorem UnmarshalOffer_spec:
  "(\<forall>e. Unmarshal_version X js = Inl e \<longrightarrow> UnmarshalOffer X js = Inl e) \<and>
   (Unmarshal_version X js = Inr None \<longrightarrow> UnmarshalOffer X js = Inl errOfferVersionMissing) \<and>
   (\<forall>v. Unmarshal_version X js = Inr (Some v) \<longrightarrow>
      (GreaterThan v CurOfferVersion \<longrightarrow>
         UnmarshalOffer X js = Inl (errOfferVersionUnsupported v)) \<and>
      (\<not> GreaterThan v CurOfferVersion \<longrightarrow>
         (\<forall>e. UnmarshalStruct_Offer X js = Inl e \<longrightarrow> UnmarshalOffer X js = Inl e) \<and>
         (\<forall>ofr. UnmarshalStruct_Offer X js = Inr ofr \<longrightarrow>
            (validate X ofr = None \<longrightarrow> UnmarshalOffer X js = Inr ofr) \<and>
            (\<forall>e. validate X ofr = Some e \<longrightarrow>
               UnmarshalOffer X js = Inl e \<and>
               (e = errOfferIDNotSet \<or>
                ValidatePositive X ''minAmount'' (MinAmount ofr) = Some e \<or>
                ValidatePositive X ''maxAmount'' (MaxAmount ofr) = Some e \<or>
                e = errMinGreaterThanMax \<or> e = errExchangeRateNil \<or>
                e = errOfferHashMismatch \<or> e = NilPointerDereference))))) \<and>
   \<not> GreaterThan CurOfferVersion CurOfferVersion"
proof -
  have v: "\<And>ofr e. validate X ofr = Some e \<Longrightarrow>
               (e = errOfferIDNotSet \<or>
                ValidatePositive X ''minAmount'' (MinAmount ofr) = Some e \<or>
                ValidatePositive X ''maxAmount'' (MaxAmount ofr) = Some e \<or>
                e = errMinGreaterThanMax \<or> e = errExchangeRateNil \<or>
                e = errOfferHashMismatch \<or> e = NilPointerDereference)"
    by (rule validate_Some_cases)
  have g: "\<not> GreaterThan CurOfferVersion CurOfferVersion"
    by (simp add: GreaterThan_def)
  show ?thesis
    using v g by (auto simp: UnmarshalOffer_def UnmarshalJSON_def)
qed

theorem UnmarshalOffer_spec_witness:
  "UnmarshalOffer standInExtern [] = Inl (ExternalError ''json: syntax error'') \<and>
   UnmarshalOffer standInExtern noVersionJSON = Inl errOfferVersionMissing \<and>
   UnmarshalOffer standInExtern futureVersionJSON
     = Inl (errOfferVersionUnsupported \<lparr>Major = 1, Minor = 0, Patch = 1\<rparr>) \<and>
   UnmarshalOffer standInExtern reducedJSON = Inr reducedOffer"
proof -
  have g: "GreaterThan \<lparr>Major = 1, Minor = 0, Patch = 1\<rparr> CurOfferVersion"
    by (simp add: GreaterThan_def CurOfferVersion_def)
  have n: "\<not> GreaterThan CurOfferVersion CurOfferVersion"
    by (simp add: GreaterThan_def)
  have 1: "UnmarshalOffer standInExtern [] = Inl (ExternalError ''json: syntax error'')"
    using UnmarshalOffer_spec [of standInExtern "[]"] standIn_versions(1) by blast
  have 2: "UnmarshalOffer standInExtern noVersionJSON = Inl errOfferVersionMissing"
    using UnmarshalOffer_spec [of standInExtern noVersionJSON] standIn_versions(2) by blast
  have 3: "UnmarshalOffer standInExtern futureVersionJSON
     = Inl (errOfferVersionUnsupported \<lparr>Major = 1, Minor = 0, Patch = 1\<rparr>)"
    using UnmarshalOffer_spec [of standInExtern futureVersionJSON] standIn_versions(3) g by blast
  have 4: "UnmarshalOffer standInExtern reducedJSON = Inr reducedOffer"
    using UnmarshalOffer_spec [of standInExtern reducedJSON] standIn_versions(4) n
      standIn_unmarshal validate_reduced by blast
  show ?thesis using 1 2 3 4 by simp
qed

text \<open>
  The claim as stated fails: a document whose version is the current one and whose
  \<open>minAmount\<close> is no decimal is rejected by the decoder, before any field validation; the
  error is the decoder's, none of those the claim lists.
\<close>

theorem UnmarshalOffer_counterexample:
  "Unmarshal_version standInExtern badAmountJSON = Inr (Some CurOfferVersion) \<and>
   \<not> GreaterThan CurOfferVersion CurOfferVersion \<and>
   UnmarshalStruct_Offer standInExtern badAmountJSON = Inl (ExternalError ''json: cannot unmarshal'') \<and>
   UnmarshalOffer standInExtern badAmountJSON = Inl (ExternalError ''json: cannot unmarshal'')"
proof -
  have u: "UnmarshalStruct_Offer standInExtern badAmountJSON = Inl (ExternalError ''json: cannot unmarshal'')"
    by (simp add: standInExtern_def reducedJSON_def unreducedJSON_def badAmountJSON_def)
  have n: "\<not> GreaterThan CurOfferVersion CurOfferVersion"
    by (simp add: GreaterThan_def)
  show ?thesis
    using u n standIn_versions(5) by (simp add: UnmarshalOffer_def UnmarshalJSON_def)
qed


subsection \<open>The swap state\<close>

text \<open>
  C4. In a swap state with no DLEq proof, \<open>getSecret\<close> copies the reversed bytes of the
  private spend key into a 32-byte array; the spend key being 32 bytes, the secret is the
  byte-reversal of the spend key.
\<close>

theorem getSecret_reverses:
  assumes "dleqProof s = None" and "privkeys s = Some kp"
  shows "getSecret s = Inr (take 32 (rev (SpendKeyBytes kp)) @ replicate (32 - length (SpendKeyBytes kp)) 0) \<and>
         (length (SpendKeyBytes kp) = 32 \<longrightarrow> getSecret s = Inr (rev (SpendKeyBytes kp)))"
  using assms by (simp add: getSecret_def copy32_def Reverse_def)

theorem getSecret_reverses_witness:
  "dleqProof (sampleState EventContractReadyType XMRLocked) = None \<and>
   length (SpendKeyBytes sampleKeys) = 32 \<and>
   getSecret (sampleState EventContractReadyType XMRLocked) =
     Inr [32, 31, 30, 29, 28, 27, 26, 25, 24, 23, 22, 21, 20, 19, 18, 17, 16, 15, 14, 13, 12, 11,
          10, 9, 8, 7, 6, 5, 4, 3, 2, 1]"
  using getSecret_reverses [of "sampleState EventContractReadyType XMRLocked" sampleKeys]
  by (simp add: sampleState_def sampleKeys_def SpendKeyBytes_def)

lemma newSwapState_ok_iff:
  "(\<exists>s. newSwapState b ofr ur n m swapInfo = Inr s) \<longleftrightarrow>
     (EthAsset ofr \<noteq> EthAssetETH \<longrightarrow> NewIERC20 b (EthAsset ofr) = None) \<and>
     NewTxSender b (EthAsset ofr) = None \<and> readyWatcher_Start b = None \<and>
     refundedWatcher_Start b = None"
  by (auto simp: newSwapState_def split: option.splits)

lemma newSwapState_fields:
  "newSwapState b ofr ur n m swapInfo = Inr s \<Longrightarrow>
     info s = swapInfo \<and> offer s = ofr \<and> dleqProof s = None \<and>
     nextExpectedEvent s = nextExpectedEventFromStatus b (Status swapInfo) \<and>
     startNumber s = n \<and> moneroStartHeight s = m"
  by (auto simp: newSwapState_def split: option.splits if_splits)

text \<open>
  C7, as amended. \<open>newSwapStateFromOngoing\<close> fails with the invalid-stage error for every
  persisted status other than \<open>XMRLocked\<close>, the earlier ones and the later ones alike. For
  the status \<open>XMRLocked\<close> it succeeds exactly when \<open>newSwapState\<close> succeeds, the contract
  binding can be created and the persisted swap is there; the resumed state then carries
  the persisted keys, contract address, swap and swap ID, and expects the event that
  follows \<open>XMRLocked\<close>.
\<close>

theorem newSwapStateFromOngoing_spec:
  "(Status swapInfo \<noteq> XMRLocked \<longrightarrow>
      newSwapStateFromOngoing b ofr ur esi swapInfo sk = Inl errInvalidStageForRecovery) \<and>
   (Status swapInfo = XMRLocked \<longrightarrow>
      ((\<exists>s. newSwapStateFromOngoing b ofr ur esi swapInfo sk = Inr s) \<longleftrightarrow>
         (\<exists>s. newSwapState b ofr ur (StartNumber esi) (MoneroStartHeight swapInfo) swapInfo = Inr s) \<and>
         NewSwapFactory b (ContractAddress esi) = None \<and> Swap_info esi \<noteq> None)) \<and>
   (\<forall>s. newSwapStateFromOngoing b ofr ur esi swapInfo sk = Inr s \<longrightarrow>
      Status (info s) = XMRLocked \<and>
      nextExpectedEvent s = nextExpectedEventFromStatus b XMRLocked \<and>
      privkeys s = Some sk \<and> dleqProof s = None \<and> contractAddr s = ContractAddress esi \<and>
      contractSwapID s = SwapID esi \<and> contractSwap s = Swap_info esi \<and>
      startNumber s = StartNumber esi)"
proof -
  have p1: "Status swapInfo \<noteq> XMRLocked \<longrightarrow>
      newSwapStateFromOngoing b ofr ur esi swapInfo sk = Inl errInvalidStageForRecovery"
    by (simp add: newSwapStateFromOngoing_def)
  have p2: "Status swapInfo = XMRLocked \<longrightarrow>
      ((\<exists>s. newSwapStateFromOngoing b ofr ur esi swapInfo sk = Inr s) \<longleftrightarrow>
         (\<exists>s. newSwapState b ofr ur (StartNumber esi) (MoneroStartHeight swapInfo) swapInfo = Inr s) \<and>
         NewSwapFactory b (ContractAddress esi) = None \<and> Swap_info esi \<noteq> None)"
    by (auto simp: newSwapStateFromOngoing_def setContract_def split: sum.splits option.splits)
  have p3: "Status (info s) = XMRLocked \<and>
      nextExpectedEvent s = nextExpectedEventFromStatus b XMRLocked \<and>
      privkeys s = Some sk \<and> dleqProof s = None \<and> contractAddr s = ContractAddress esi \<and>
      contractSwapID s = SwapID esi \<and> contractSwap s = Swap_info esi \<and>
      startNumber s = StartNumber esi"
    if h: "newSwapStateFromOngoing b ofr ur esi swapInfo sk = Inr s" for s
  proof -
    from h have st: "Status swapInfo = XMRLocked"
      by (auto simp: newSwapStateFromOngoing_def split: if_splits)
    from h st obtain s0 swap where
      s0: "newSwapState b ofr ur (StartNumber esi) (MoneroStartHeight swapInfo) swapInfo = Inr s0"
      and sw: "Swap_info esi = Some swap"
      and s: "s = (setTimeouts (s0\<lparr>contractAddr := ContractAddress esi,
                     senderContract := Some (ContractAddress esi)\<rparr>) (Timeout0 swap) (Timeout1 swap))
                \<lparr>privkeys := Some sk, pubkeys := Some (PublicKeyPair_of b sk),
                 contractSwapID := SwapID esi, contractSwap := Some swap\<rparr>"
      by (auto simp: newSwapStateFromOngoing_def setContract_def split: sum.splits option.splits)
    show ?thesis
      using newSwapState_fields [OF s0] st sw s by (simp add: setTimeouts_def)
  qed
  show ?thesis using p1 p2 p3 by blast
qed

theorem newSwapStateFromOngoing_spec_witness:
  "(\<exists>s. newSwapStateFromOngoing sampleBackend reducedOffer False sampleEthSwapInfo
          (sampleInfo XMRLocked) sampleKeys = Inr s) \<and>
   newSwapStateFromOngoing sampleBackend reducedOffer False sampleEthSwapInfo
     (sampleInfo ETHLocked) sampleKeys = Inl errInvalidStageForRecovery"
  using newSwapStateFromOngoing_spec [of "sampleInfo XMRLocked" sampleBackend reducedOffer False
      sampleEthSwapInfo sampleKeys]
    newSwapStateFromOngoing_spec [of "sampleInfo ETHLocked" sampleBackend reducedOffer False
      sampleEthSwapInfo sampleKeys]
    newSwapState_ok_iff [of sampleBackend reducedOffer False "StartNumber sampleEthSwapInfo"
      "MoneroStartHeight (sampleInfo XMRLocked)" "sampleInfo XMRLocked"]
  by (simp add: sampleInfo_def sampleBackend_def sampleEthSwapInfo_def)

text \<open>
  The claim as stated fails: \<open>ContractReady\<close> is a later, non-terminal status, and the
  constructor rejects it.
\<close>

theorem newSwapStateFromOngoing_counterexample:
  "spec_stage XMRLocked \<le> spec_stage ContractReady \<and> \<not> spec_terminal ContractReady \<and>
   newSwapStateFromOngoing sampleBackend reducedOffer False sampleEthSwapInfo
     (sampleInfo ContractReady) sampleKeys = Inl errInvalidStageForRecovery"
  by (simp add: newSwapStateFromOngoing_def sampleInfo_def spec_terminal_def)

text \<open>The deferred function of \<open>exit\<close> changes nothing but the record of its calls.\<close>

lemma exitDeferred_frame: "(exitDeferred b s)\<lparr>effects := effects s\<rparr> = s"
  by (simp add: exitDeferred_def split: option.splits)

lemma exitDeferred_info: "info (exitDeferred b s) = info s"
  by (simp add: exitDeferred_def split: option.splits)

lemma exitDeferred_next: "nextExpectedEvent (exitDeferred b s) = nextExpectedEvent s"
  by (simp add: exitDeferred_def split: option.splits)

text \<open>
  C8. \<open>exit\<close> on a state that expects \<open>ETHLocked\<close> returns no error and leaves the
  status \<open>CompletedAbort\<close>; on a state that expects nothing (the terminal \<open>None\<close>) it
  returns no error and leaves every field of the state as it was, the calls of its
  deferred clean-up apart; on a state that expects any event other than \<open>ETHLocked\<close>,
  \<open>ContractReady\<close> and \<open>None\<close> it returns the unexpected-event error and leaves the status
  \<open>CompletedAbort\<close>.
\<close>

theorem exit_spec:
  "(nextExpectedEvent s = EventETHLockedType \<longrightarrow>
      (\<exists>s'. exit b s = Some (None, s') \<and> Status (info s') = CompletedAbort \<and>
            nextExpectedEvent s' = EventNoneType)) \<and>
   (nextExpectedEvent s = EventNoneType \<longrightarrow>
      (\<exists>s'. exit b s = Some (None, s') \<and> s'\<lparr>effects := effects s\<rparr> = s)) \<and>
   (nextExpectedEvent s \<notin> {EventETHLockedType, EventContractReadyType, EventNoneType} \<longrightarrow>
      (\<exists>s'. exit b s = Some (Some errUnexpectedMessageType, s') \<and>
            Status (info s') = CompletedAbort \<and> nextExpectedEvent s' = EventNoneType))"
  by (cases "nextExpectedEvent s")
     (simp_all add: exit_def exitSwitch_def exitDeferred_frame exitDeferred_info
        exitDeferred_next clearNextExpectedEvent_def)

theorem exit_spec_witness:
  "(\<exists>s'. exit sampleBackend (sampleState EventETHLockedType KeysExchanged) = Some (None, s') \<and>
         Status (info s') = CompletedAbort) \<and>
   (\<exists>s'. exit sampleBackend (sampleState EventNoneType CompletedSuccess) = Some (None, s') \<and>
         s'\<lparr>effects := []\<rparr> = sampleState EventNoneType CompletedSuccess) \<and>
   (\<exists>s'. exit sampleBackend (sampleState EventExitType XMRLocked)
           = Some (Some errUnexpectedMessageType, s') \<and>
         Status (info s') = CompletedAbort)"
proof -
  have e: "nextExpectedEvent (sampleState ev st) = ev" "effects (sampleState ev st) = []"
    for ev st
    by (simp_all add: sampleState_def)
  show ?thesis
    using exit_spec [of "sampleState EventETHLockedType KeysExchanged" sampleBackend]
      exit_spec [of "sampleState EventNoneType CompletedSuccess" sampleBackend]
      exit_spec [of "sampleState EventExitType XMRLocked" sampleBackend]
    by (simp add: e) blast
qed

end
